theory Spec2Isabelle
  imports Main "HOL-Library.Multiset"
begin

section \<open>Request values\<close>

text \<open>
  The model covers the router that server.ts mounts at /api/products (router.ts) with the
  handlers of handlers/product.ts, for a request that has passed the CORS check and the
  JSON body parser. The libraries the router calls (express-validator over validator.js,
  and the object-relational mapper) are modelled as far as the router and the handlers
  use them.

  The request body is parsed JSON. A JSON number is kept as the decimal that JavaScript
  prints for it: \<open>Number m e\<close> stands for the number \<open>m * 10 ^ e\<close>. The fields the routes
  read are scalars; a field that the body does not have reads as \<open>undefined\<close>, which is
  \<open>None\<close> here. A string is a list of characters of the 8-bit range. Arrays and nested
  objects as field values, characters beyond that range, and numbers outside the range
  of a double, are not part of this model.
\<close>

datatype number = Number (mant: int) (expo: int)

datatype jsval = JNull | JBool bool | JNum number | JStr string

subsection \<open>Number to string, as ECMAScript defines it for radix 10\<close>

definition digit_char :: "nat \<Rightarrow> char" where
  "digit_char d = ''0123456789'' ! (d mod 10)"

fun digits_of :: "nat \<Rightarrow> string" where
  "digits_of n = (if n < 10 then [digit_char n] else digits_of (n div 10) @ [digit_char (n mod 10)])"

declare digits_of.simps [simp del]

definition strip_trailing_zeros :: "string \<Rightarrow> string" where
  "strip_trailing_zeros ds = rev (dropWhile (\<lambda>c. c = CHR ''0'') (rev ds))"

text \<open>
  For a positive number \<open>a * 10 ^ e\<close>: \<open>s\<close> holds its \<open>k\<close> significant digits and \<open>n\<close> is
  the position of the decimal point, so that the number is \<open>s * 10 ^ (n - k)\<close>. The five
  cases are those of Number::toString: an integer with trailing zeros, a decimal point
  inside the digits, a small fraction, and the two exponent forms.
\<close>

definition unsigned_to_string :: "nat \<Rightarrow> int \<Rightarrow> string" where
  "unsigned_to_string a e =
     (let ds = digits_of a;
          s = strip_trailing_zeros ds;
          k = int (length s);
          n = int (length ds) + e
      in if k \<le> n \<and> n \<le> 21 then s @ replicate (nat (n - k)) (CHR ''0'')
         else if 0 < n \<and> n \<le> 21 then take (nat n) s @ ''.'' @ drop (nat n) s
         else if - 6 < n \<and> n \<le> 0 then ''0.'' @ replicate (nat (- n)) (CHR ''0'') @ s
         else (let ex = (if n - 1 < 0 then ''-'' else ''+'') @ digits_of (nat \<bar>n - 1\<bar>)
               in if k = 1 then s @ ''e'' @ ex
                  else take 1 s @ ''.'' @ drop 1 s @ ''e'' @ ex))"

definition number_to_string :: "number \<Rightarrow> string" where
  "number_to_string x =
     (if mant x = 0 then ''0''
      else (if mant x < 0 then ''-'' else '''') @ unsigned_to_string (nat \<bar>mant x\<bar>) (expo x))"

subsection \<open>String to number, as far as the comparison with zero needs it\<close>

definition is_digit :: "char \<Rightarrow> bool" where
  "is_digit c = (c \<in> set ''0123456789'')"

text \<open>
  The white space that the conversion strips, as far as it lies in the 8-bit range of the
  characters here: tab to carriage return, space and no-break space.
\<close>

definition is_space :: "char \<Rightarrow> bool" where
  "is_space c = (c \<in> set [CHR 0x09, CHR 0x0A, CHR 0x0B, CHR 0x0C, CHR 0x0D, CHR 0x20, CHR 0xA0])"

definition trim :: "string \<Rightarrow> string" where
  "trim s = rev (dropWhile is_space (rev (dropWhile is_space s)))"

definition digits_value :: "string \<Rightarrow> int" where
  "digits_value ds = foldl (\<lambda>a c. 10 * a + (of_char c - 48)) 0 ds"

definition strip_sign :: "string \<Rightarrow> string" where
  "strip_sign s = (case s of [] \<Rightarrow> [] | c # r \<Rightarrow> if c = CHR ''+'' \<or> c = CHR ''-'' then r else s)"

definition has_minus :: "string \<Rightarrow> bool" where
  "has_minus s = (case s of [] \<Rightarrow> False | c # r \<Rightarrow> c = CHR ''-'')"

text \<open>
  The mathematical value of a string numeric literal, before it is rounded to a double:
  not a number, an infinity (\<open>True\<close> for the negative one), or \<open>m * 10 ^ e\<close>.
\<close>

datatype literal_value = NaN | Infinite bool | Decimal int int

text \<open>
  An unsigned decimal literal: digits, an optional fraction, an optional exponent; one of
  the integer part and the fraction may be empty, not both.
\<close>

definition exponent_part :: "string \<Rightarrow> int option" where
  "exponent_part r =
     (case r of
        [] \<Rightarrow> Some 0
      | c # x \<Rightarrow>
          if (c = CHR ''e'' \<or> c = CHR ''E'') \<and> strip_sign x \<noteq> [] \<and> list_all is_digit (strip_sign x)
          then Some ((if has_minus x then - 1 else 1) * digits_value (strip_sign x))
          else None)"

definition unsigned_decimal :: "string \<Rightarrow> (int \<times> int) option" where
  "unsigned_decimal u =
     (let ip = takeWhile is_digit u;
          r1 = dropWhile is_digit u;
          dot = (r1 \<noteq> [] \<and> hd r1 = CHR ''.'');
          fp = (if dot then takeWhile is_digit (tl r1) else []);
          r2 = (if dot then dropWhile is_digit (tl r1) else r1)
      in if ip = [] \<and> fp = [] then None
         else (case exponent_part r2 of
                 None \<Rightarrow> None
               | Some x \<Rightarrow> Some (digits_value (ip @ fp), x - int (length fp))))"

definition radix_digits :: "string \<Rightarrow> string option" where
  "radix_digits u =
     (case u of
        z # p # ds \<Rightarrow>
          if z \<noteq> CHR ''0'' \<or> ds = [] then None
          else if p \<in> set ''xX'' \<and> list_all (\<lambda>c. c \<in> set ''0123456789abcdefABCDEF'') ds then Some ds
          else if p \<in> set ''oO'' \<and> list_all (\<lambda>c. c \<in> set ''01234567'') ds then Some ds
          else if p \<in> set ''bB'' \<and> list_all (\<lambda>c. c \<in> set ''01'') ds then Some ds
          else None
      | _ \<Rightarrow> None)"

definition string_to_number :: "string \<Rightarrow> literal_value" where
  "string_to_number str =
     (let t = trim str; u = strip_sign t; neg = has_minus t
      in if t = [] then Decimal 0 0
         else if u = ''Infinity'' then Infinite neg
         else (case unsigned_decimal u of
                 Some (m, e) \<Rightarrow> Decimal ((if neg then - 1 else 1) * m) e
               | None \<Rightarrow>
                   (case radix_digits t of
                      Some ds \<Rightarrow> Decimal (if list_all (\<lambda>c. c = CHR ''0'') ds then 0 else 1) 0
                    | None \<Rightarrow> NaN)))"

text \<open>
  Rounding to a double sends a positive value to zero exactly when it is at most half of
  the least positive double, that is at most \<open>1 / 2 ^ 1075\<close> (a tie goes to the even
  neighbour, which is zero).
\<close>

definition rounds_to_positive :: "int \<Rightarrow> int \<Rightarrow> bool" where
  "rounds_to_positive m e =
     (0 < m \<and> (if 0 \<le> e then True else 10 ^ nat (- e) < m * 2 ^ 1075))"

fun literal_gt_zero :: "literal_value \<Rightarrow> bool" where
  "literal_gt_zero NaN = False"
| "literal_gt_zero (Infinite neg) = (\<not> neg)"
| "literal_gt_zero (Decimal m e) = rounds_to_positive m e"

text \<open>
  The JavaScript comparison \<open>value > 0\<close>: the value is converted to a number first
  (\<open>undefined\<close> to NaN, \<open>null\<close> to 0, \<open>true\<close> to 1, a string by its numeric literal).
\<close>

fun js_gt_zero :: "jsval option \<Rightarrow> bool" where
  "js_gt_zero None = False"
| "js_gt_zero (Some JNull) = False"
| "js_gt_zero (Some (JBool b)) = b"
| "js_gt_zero (Some (JNum x)) = (0 < mant x)"
| "js_gt_zero (Some (JStr s)) = literal_gt_zero (string_to_number s)"

section \<open>The validation library\<close>

subsection \<open>The string predicates of validator.js\<close>

text \<open>
  \<open>isNumeric\<close> is the regular expression \<open>^[+-]?([0-9]*[.])?[0-9]+$\<close>, \<open>isInt\<close> with
  no options is \<open>^[-+]?[0-9]+$\<close>, \<open>isEmpty\<close> is length zero, and the strict
  \<open>isBoolean\<close> accepts the four strings listed.
\<close>

definition validator_isEmpty :: "string \<Rightarrow> bool" where
  "validator_isEmpty str = (length str = 0)"

definition unsigned_numeric :: "string \<Rightarrow> bool" where
  "unsigned_numeric r =
     (let a = takeWhile is_digit r; b = dropWhile is_digit r
      in case b of
           [] \<Rightarrow> a \<noteq> []
         | c # f \<Rightarrow> c = CHR ''.'' \<and> f \<noteq> [] \<and> list_all is_digit f)"

definition validator_isNumeric :: "string \<Rightarrow> bool" where
  "validator_isNumeric str = unsigned_numeric (strip_sign str)"

definition validator_isInt :: "string \<Rightarrow> bool" where
  "validator_isInt str = (strip_sign str \<noteq> [] \<and> list_all is_digit (strip_sign str))"

definition validator_isBoolean :: "string \<Rightarrow> bool" where
  "validator_isBoolean str = (str \<in> set [''true'', ''false'', ''1'', ''0''])"

subsection \<open>Validation chains of express-validator\<close>

text \<open>
  A standard validator sees the field's value as a string: \<open>undefined\<close> and \<open>null\<close>
  become the empty string, anything else its JavaScript string.
\<close>

fun toString :: "jsval option \<Rightarrow> string" where
  "toString None = []"
| "toString (Some JNull) = []"
| "toString (Some (JBool b)) = (if b then ''true'' else ''false'')"
| "toString (Some (JNum x)) = number_to_string x"
| "toString (Some (JStr s)) = s"

datatype location = Body | Params

datatype validation = Standard "string \<Rightarrow> bool" | Custom "jsval option \<Rightarrow> bool"

record item =
  validation :: validation
  negated :: bool
  message :: string

record chain =
  location :: location
  path :: string
  stack :: "item list"
  negateNext :: bool

definition body :: "string \<Rightarrow> chain" where
  "body f = \<lparr>location = Body, path = f, stack = [], negateNext = False\<rparr>"

definition param :: "string \<Rightarrow> chain" where
  "param f = \<lparr>location = Params, path = f, stack = [], negateNext = False\<rparr>"

text \<open>
  The methods of a chain, as router.ts calls them; the argument order puts the chain last.
  Adding a validator takes the pending negation and clears it. \<open>not\<close> sets the flag
  (it does not toggle it), and \<open>notEmpty\<close> is \<open>not\<close> followed by \<open>isEmpty\<close>, so \<open>not\<close>
  before \<open>notEmpty\<close> still builds a negated \<open>isEmpty\<close>.
\<close>

definition addItem :: "validation \<Rightarrow> chain \<Rightarrow> chain" where
  "addItem v c =
     c\<lparr>stack := stack c @ [\<lparr>validation = v, negated = negateNext c, message = ''Invalid value''\<rparr>],
       negateNext := False\<rparr>"

definition not' :: "chain \<Rightarrow> chain" where
  "not' c = c\<lparr>negateNext := True\<rparr>"

text \<open>\<open>withMessage\<close> names the message of the validator added last (router.ts always has one).\<close>

definition withMessage :: "string \<Rightarrow> chain \<Rightarrow> chain" where
  "withMessage m c =
     (if stack c = [] then c
      else c\<lparr>stack := butlast (stack c) @ [(last (stack c))\<lparr>message := m\<rparr>]\<rparr>)"

definition custom :: "(jsval option \<Rightarrow> bool) \<Rightarrow> chain \<Rightarrow> chain" where
  "custom f c = addItem (Custom f) c"

definition isEmpty :: "chain \<Rightarrow> chain" where
  "isEmpty c = addItem (Standard validator_isEmpty) c"

definition notEmpty :: "chain \<Rightarrow> chain" where
  "notEmpty c = isEmpty (not' c)"

definition isNumeric :: "chain \<Rightarrow> chain" where
  "isNumeric c = addItem (Standard validator_isNumeric) c"

definition isInt :: "chain \<Rightarrow> chain" where
  "isInt c = addItem (Standard validator_isInt) c"

definition isBoolean :: "chain \<Rightarrow> chain" where
  "isBoolean c = addItem (Standard validator_isBoolean) c"

subsection \<open>Running a chain on a request\<close>

record request =
  req_params :: "string \<rightharpoonup> string"
  req_body :: "string \<rightharpoonup> jsval"

record verror =
  msg :: string
  err_location :: location
  err_path :: string
  err_value :: "jsval option"

definition select_field :: "request \<Rightarrow> chain \<Rightarrow> jsval option" where
  "select_field req c =
     (case location c of
        Body \<Rightarrow> req_body req (path c)
      | Params \<Rightarrow> map_option JStr (req_params req (path c)))"

text \<open>
  Every validator of the chain runs, whatever the ones before it found. A validator
  fails when its result is false, a negated one when its result is true.
\<close>

definition item_fails :: "item \<Rightarrow> jsval option \<Rightarrow> bool" where
  "item_fails i v =
     (let result = (case validation i of Standard f \<Rightarrow> f (toString v) | Custom g \<Rightarrow> g v)
      in if negated i then result else \<not> result)"

definition run_chain :: "chain \<Rightarrow> request \<Rightarrow> verror list" where
  "run_chain c req =
     (let v = select_field req c
      in map (\<lambda>i. \<lparr>msg = message i, err_location = location c, err_path = path c, err_value = v\<rparr>)
           (filter (\<lambda>i. item_fails i v) (stack c)))"

definition validationResult :: "chain list \<Rightarrow> request \<Rightarrow> verror list" where
  "validationResult cs req = concat (map (\<lambda>c. run_chain c req) cs)"

section \<open>Responses\<close>

type_synonym json_object = "(string \<times> jsval) list"

datatype payload =
    Data json_object
  | DataList "json_object list"
  | DataText string
  | Error string
  | Errors "verror list"

record response =
  status :: nat
  payload :: payload

text \<open>A handler that lets an exception go, or only logs it, never answers the request.\<close>

datatype outcome = Responded response | NoResponse

definition json :: "payload \<Rightarrow> outcome" where
  "json b = Responded \<lparr>status = 200, payload = b\<rparr>"

definition status_json :: "nat \<Rightarrow> payload \<Rightarrow> outcome" where
  "status_json code b = Responded \<lparr>status = code, payload = b\<rparr>"

section \<open>The Product table\<close>

text \<open>
  Modelled from the spec: models/Product.model.ts is not among the sources. The table has
  the columns of the spec's data model (an integer primary key \<open>id\<close> generated by the
  persistence layer, a text \<open>name\<close>, a numeric \<open>price\<close>, a boolean \<open>availability\<close> that
  defaults to true at creation) and the two audit timestamps \<open>createdAt\<close> and
  \<open>updatedAt\<close> that getProducts excludes by name. The database is PostgreSQL
  (config/db.ts), where an integer key is a signed 32-bit number: a key outside that
  range is an error of the query, not a missing row. A column stores a value as it reads
  it: the text column takes the string of any scalar, the numeric column a number or a
  numeric string, the boolean column true and false and their forms 1 and 0; \<open>null\<close> and
  any other value are refused by the persistence layer. A timestamp is the text that JSON
  shows for it; the persistence layer sets both timestamps from the clock (a body that
  supplies a timestamp of its own is outside the model).
\<close>

type_synonym timestamp = string

record product =
  prod_id :: int
  name :: string
  price :: number
  availability :: bool
  createdAt :: timestamp
  updatedAt :: timestamp

record database =
  rows :: "product list"
  last_id :: int

datatype db_error = InvalidInput | UniqueViolation | OutOfRange

definition in_key_range :: "int \<Rightarrow> bool" where
  "in_key_range k = (- 2147483648 \<le> k \<and> k \<le> 2147483647)"

definition toJSON :: "product \<Rightarrow> json_object" where
  "toJSON p =
     [(''id'', JNum (Number (prod_id p) 0)),
      (''name'', JStr (name p)),
      (''price'', JNum (price p)),
      (''availability'', JBool (availability p)),
      (''createdAt'', JStr (createdAt p)),
      (''updatedAt'', JStr (updatedAt p))]"

definition exclude :: "string list \<Rightarrow> json_object \<Rightarrow> json_object" where
  "exclude names obj = filter (\<lambda>kv. fst kv \<notin> set names) obj"

subsection \<open>Column values\<close>

definition as_text :: "jsval \<Rightarrow> string option" where
  "as_text v = (case v of JNull \<Rightarrow> None | _ \<Rightarrow> Some (toString (Some v)))"

definition as_number :: "jsval \<Rightarrow> number option" where
  "as_number v =
     (case v of
        JNum x \<Rightarrow> Some x
      | JStr s \<Rightarrow>
          if validator_isNumeric s
          then map_option (\<lambda>(m, e). Number ((if has_minus s then - 1 else 1) * m) e)
                 (unsigned_decimal (strip_sign s))
          else None
      | _ \<Rightarrow> None)"

definition as_boolean :: "jsval \<Rightarrow> bool option" where
  "as_boolean v =
     (case v of
        JBool b \<Rightarrow> Some b
      | JNull \<Rightarrow> None
      | _ \<Rightarrow>
          if toString (Some v) \<in> set [''true'', ''1''] then Some True
          else if toString (Some v) \<in> set [''false'', ''0''] then Some False
          else None)"

definition pk_of_string :: "string \<Rightarrow> int option" where
  "pk_of_string s =
     (if strip_sign s \<noteq> [] \<and> list_all is_digit (strip_sign s)
      then Some ((if has_minus s then - 1 else 1) * digits_value (strip_sign s))
      else None)"

definition as_integer :: "jsval \<Rightarrow> int option" where
  "as_integer v =
     (case v of
        JNum x \<Rightarrow>
          if 0 \<le> expo x then Some (mant x * 10 ^ nat (expo x))
          else if mant x mod 10 ^ nat (- expo x) = 0 then Some (mant x div 10 ^ nat (- expo x))
          else None
      | JStr s \<Rightarrow> pk_of_string s
      | _ \<Rightarrow> None)"

subsection \<open>The operations of the model class that the handlers call\<close>

definition findAll_desc :: "database \<Rightarrow> product list" where
  "findAll_desc db = rev (sort_key prod_id (rows db))"

text \<open>
  A missing key finds nothing. A key that is no integer, or an integer outside the range
  of the key column, is an error of the query.
\<close>

definition findByPk :: "database \<Rightarrow> string option \<Rightarrow> db_error + product option" where
  "findByPk db key =
     (case key of
        None \<Rightarrow> Inr None
      | Some s \<Rightarrow>
          (case pk_of_string s of
             None \<Rightarrow> Inl InvalidInput
           | Some k \<Rightarrow>
               if in_key_range k then Inr (find (\<lambda>p. prod_id p = k) (rows db))
               else Inl OutOfRange))"

text \<open>
  \<open>create\<close> takes every attribute that the given values supply, and the default for one
  they do not: the next value of the sequence for \<open>id\<close> (also when it is \<open>null\<close>), true
  for \<open>availability\<close>. A value that its column refuses fails the statement before the
  sequence is drawn from; the sequence moves on even when the insertion then fails on
  the key.
\<close>

definition build :: "(string \<rightharpoonup> jsval) \<Rightarrow> int \<Rightarrow> timestamp \<Rightarrow> product option" where
  "build values k now =
     (case (Option.bind (values ''name'') as_text,
            Option.bind (values ''price'') as_number,
            case_option (Some True) as_boolean (values ''availability'')) of
        (Some n, Some p, Some a) \<Rightarrow>
          Some \<lparr>prod_id = k, name = n, price = p, availability = a, createdAt = now, updatedAt = now\<rparr>
      | _ \<Rightarrow> None)"

definition insert_row :: "product \<Rightarrow> database \<Rightarrow> database \<times> (db_error + product)" where
  "insert_row p db =
     (if prod_id p \<in> prod_id ` set (rows db) then (db, Inl UniqueViolation)
      else (db\<lparr>rows := rows db @ [p]\<rparr>, Inr p))"

text \<open>The key of the new row, and the table after the sequence has given it.\<close>

definition new_key :: "(string \<rightharpoonup> jsval) \<Rightarrow> database \<Rightarrow> db_error + int \<times> database" where
  "new_key values db =
     (if values ''id'' = None \<or> values ''id'' = Some JNull then
        if in_key_range (last_id db + 1)
        then Inr (last_id db + 1, db\<lparr>last_id := last_id db + 1\<rparr>)
        else Inl OutOfRange
      else
        (case Option.bind (values ''id'') as_integer of
           None \<Rightarrow> Inl InvalidInput
         | Some k \<Rightarrow> if in_key_range k then Inr (k, db) else Inl OutOfRange))"

definition create :: "(string \<rightharpoonup> jsval) \<Rightarrow> timestamp \<Rightarrow> database \<Rightarrow> database \<times> (db_error + product)" where
  "create values now db =
     (case new_key values db of
        Inl e \<Rightarrow> (db, Inl e)
      | Inr (k, db') \<Rightarrow>
          (case build values k now of
             None \<Rightarrow> (db, Inl InvalidInput)
           | Some p \<Rightarrow> insert_row p db'))"

text \<open>
  \<open>update\<close> on an instance sets the attributes that the values supply, never the primary
  key, and writes the row; \<open>save\<close> writes the instance's row and stamps \<open>updatedAt\<close>;
  \<open>destroy\<close> deletes the row. In updateProduct the \<open>save\<close> that follows \<open>update\<close> finds
  nothing left to write, so the model writes once.
\<close>

definition save :: "product \<Rightarrow> timestamp \<Rightarrow> database \<Rightarrow> database \<times> product" where
  "save p now db =
     (let p' = p\<lparr>updatedAt := now\<rparr>
      in (db\<lparr>rows := map (\<lambda>q. if prod_id q = prod_id p then p' else q) (rows db)\<rparr>, p'))"

definition update :: "product \<Rightarrow> (string \<rightharpoonup> jsval) \<Rightarrow> timestamp \<Rightarrow> database \<Rightarrow> db_error + database \<times> product" where
  "update p values now db =
     (case (case_option (Some (name p)) as_text (values ''name''),
            case_option (Some (price p)) as_number (values ''price''),
            case_option (Some (availability p)) as_boolean (values ''availability'')) of
        (Some n, Some pr, Some a) \<Rightarrow> Inr (save (p\<lparr>name := n, price := pr, availability := a\<rparr>) now db)
      | _ \<Rightarrow> Inl InvalidInput)"

definition destroy :: "product \<Rightarrow> database \<Rightarrow> database" where
  "destroy p db = db\<lparr>rows := filter (\<lambda>q. prod_id q \<noteq> prod_id p) (rows db)\<rparr>"

section \<open>The handlers\<close>

text \<open>
  A handler reads the request and the clock, may change the table, and answers or does not.
  getProducts, getProductById and createProduct catch what the persistence layer throws
  (only getProductById answers then, with 500); the other three have no handler for it.
\<close>

type_synonym handler = "request \<Rightarrow> timestamp \<Rightarrow> database \<Rightarrow> database \<times> outcome"

definition getProducts :: handler where
  "getProducts req now db =
     (db, json (DataList (map (\<lambda>p. exclude [''createdAt'', ''updatedAt''] (toJSON p)) (findAll_desc db))))"

definition getProductById :: handler where
  "getProductById req now db =
     (case findByPk db (req_params req ''id'') of
        Inl e \<Rightarrow> (db, status_json 500 (Error ''Server error''))
      | Inr None \<Rightarrow> (db, status_json 404 (Error ''Product not found''))
      | Inr (Some product) \<Rightarrow> (db, json (Data (toJSON product))))"

definition createProduct :: handler where
  "createProduct req now db =
     (case create (req_body req) now db of
        (db', Inl e) \<Rightarrow> (db', NoResponse)
      | (db', Inr product) \<Rightarrow> (db', status_json 201 (Data (toJSON product))))"

definition updateProduct :: handler where
  "updateProduct req now db =
     (case findByPk db (req_params req ''id'') of
        Inl e \<Rightarrow> (db, NoResponse)
      | Inr None \<Rightarrow> (db, status_json 404 (Error ''Product not found''))
      | Inr (Some product) \<Rightarrow>
          (case update product (req_body req) now db of
             Inl e \<Rightarrow> (db, NoResponse)
           | Inr (db', product') \<Rightarrow> (db', json (Data (toJSON product')))))"

definition updateAvailability :: handler where
  "updateAvailability req now db =
     (case findByPk db (req_params req ''id'') of
        Inl e \<Rightarrow> (db, NoResponse)
      | Inr None \<Rightarrow> (db, status_json 404 (Error ''Product not found''))
      | Inr (Some product) \<Rightarrow>
          (case save (product\<lparr>availability := \<not> availability product\<rparr>) now db of
             (db', product') \<Rightarrow> (db', json (Data (toJSON product')))))"

definition deleteProduct :: handler where
  "deleteProduct req now db =
     (case findByPk db (req_params req ''id'') of
        Inl e \<Rightarrow> (db, NoResponse)
      | Inr None \<Rightarrow> (db, status_json 404 (Error ''Product not found''))
      | Inr (Some product) \<Rightarrow> (destroy product db, json (DataText ''Product deleted'')))"

section \<open>The router\<close>

text \<open>
  Modelled from the spec: middleware.ts (handleInputErrors) is not among the sources.
  By the spec's section 4.1, when any rule failed it answers 400 with the list of errors
  and stops; when all rules passed, the next handler runs.
\<close>

definition handleInputErrors :: "verror list \<Rightarrow> outcome option" where
  "handleInputErrors errors =
     (if errors \<noteq> [] then Some (status_json 400 (Errors errors)) else None)"

definition route :: "chain list \<Rightarrow> handler \<Rightarrow> handler" where
  "route rules h req now db =
     (case handleInputErrors (validationResult rules req) of
        Some r \<Rightarrow> (db, r)
      | None \<Rightarrow> h req now db)"

definition name_rule :: chain where
  "name_rule = withMessage ''Name is required'' (notEmpty (not' (body ''name'')))"

definition price_rule :: chain where
  "price_rule =
     withMessage ''Price must be greater than 0'' (custom js_gt_zero
       (withMessage ''Price is required'' (notEmpty
         (withMessage ''Price must be a number'' (isNumeric (body ''price''))))))"

definition availability_rule :: chain where
  "availability_rule = withMessage ''Availability must be a boolean'' (isBoolean (body ''availability''))"

definition router_get_all :: handler where
  "router_get_all = getProducts"

definition router_get :: handler where
  "router_get = route [withMessage ''Id must be an integer'' (isInt (param ''id''))] getProductById"

definition router_post :: handler where
  "router_post = route [name_rule, price_rule] createProduct"

definition router_put :: handler where
  "router_put =
     route [withMessage ''not a valid id'' (isInt (param ''id'')), name_rule, price_rule, availability_rule]
       updateProduct"

definition router_patch :: handler where
  "router_patch = route [withMessage ''not a valid id'' (isInt (param ''id''))] updateAvailability"

definition router_delete :: handler where
  "router_delete = route [withMessage ''not a valid id'' (isInt (param ''id''))] deleteProduct"

section \<open>Reading a response, and sample data\<close>

definition errors_of :: "outcome \<Rightarrow> verror list" where
  "errors_of r =
     (case r of
        Responded a \<Rightarrow> (case payload a of Errors es \<Rightarrow> es | _ \<Rightarrow> [])
      | NoResponse \<Rightarrow> [])"

definition status_of :: "outcome \<Rightarrow> nat option" where
  "status_of r = (case r of Responded a \<Rightarrow> Some (status a) | NoResponse \<Rightarrow> None)"

text \<open>
  A number prints without an exponent when it is zero or its decimal point stands at a
  position \<open>n\<close> with \<open>-6 < n \<le> 21\<close>, that is when its magnitude is at least \<open>1e-6\<close> and
  below \<open>1e21\<close>.
\<close>

definition plain_notation :: "number \<Rightarrow> bool" where
  "plain_notation x =
     (mant x = 0 \<or>
      - 6 < int (length (digits_of (nat \<bar>mant x\<bar>))) + expo x \<and>
      int (length (digits_of (nat \<bar>mant x\<bar>))) + expo x \<le> 21)"

definition monitor :: product where
  "monitor = \<lparr>prod_id = 1, name = ''Monitor'', price = Number 400 0, availability = True,
     createdAt = ''2024-01-01T00:00:00.000Z'', updatedAt = ''2024-01-01T00:00:00.000Z''\<rparr>"

definition mouse :: product where
  "mouse = \<lparr>prod_id = 2, name = ''Mouse'', price = Number 1999 (- 2), availability = False,
     createdAt = ''2024-01-02T00:00:00.000Z'', updatedAt = ''2024-01-03T00:00:00.000Z''\<rparr>"

definition stock :: database where
  "stock = \<lparr>rows = [monitor, mouse], last_id = 2\<rparr>"

definition request_of :: "(string \<times> string) list \<Rightarrow> (string \<times> jsval) list \<Rightarrow> request" where
  "request_of ps bs = \<lparr>req_params = map_of ps, req_body = map_of bs\<rparr>"

text \<open>
  The states that the tests of product.test.ts go through, from an empty table: after the
  product is created, after it is updated, and after its availability is toggled.
\<close>

definition empty_table :: database where
  "empty_table = \<lparr>rows = [], last_id = 0\<rparr>"

definition created :: database where
  "created = \<lparr>rows = [\<lparr>prod_id = 1, name = ''Mouse-Testing'', price = Number 100 0, availability = True,
       createdAt = ''T1'', updatedAt = ''T1''\<rparr>], last_id = 1\<rparr>"

definition updated :: database where
  "updated = \<lparr>rows = [\<lparr>prod_id = 1, name = ''Monitor-Testing-updated'', price = Number 100 0,
       availability = True, createdAt = ''T1'', updatedAt = ''T2''\<rparr>], last_id = 1\<rparr>"

definition toggled :: database where
  "toggled = \<lparr>rows = [\<lparr>prod_id = 1, name = ''Monitor-Testing-updated'', price = Number 100 0,
       availability = False, createdAt = ''T1'', updatedAt = ''T3''\<rparr>], last_id = 1\<rparr>"

definition testing_body :: "(string \<times> jsval) list" where
  "testing_body = [(''name'', JStr ''Monitor-Testing''), (''price'', JNum (Number 100 0)),
     (''availability'', JBool True)]"

section \<open>Validation and lookup: auxiliary facts\<close>

lemma route_pass:
  "validationResult rules req = [] \<Longrightarrow> route rules h req now db = h req now db"
  by (simp add: route_def handleInputErrors_def)

lemma route_fail:
  "validationResult rules req \<noteq> [] \<Longrightarrow>
   route rules h req now db = (db, status_json 400 (Errors (validationResult rules req)))"
  by (simp add: route_def handleInputErrors_def)

lemma validationResult_Cons:
  "validationResult (c # cs) req = run_chain c req @ validationResult cs req"
  by (simp add: validationResult_def)

lemma validationResult_Nil: "validationResult [] req = []"
  by (simp add: validationResult_def)

lemma id_rule_eq:
  "withMessage m (isInt (param ''id'')) = \<lparr>location = Params, path = ''id'',
     stack = [\<lparr>validation = Standard validator_isInt, negated = False, message = m\<rparr>],
     negateNext = False\<rparr>"
  by (simp add: withMessage_def isInt_def addItem_def param_def)

lemma run_id_rule:
  "run_chain (withMessage m (isInt (param ''id''))) req =
     (if validator_isInt (toString (map_option JStr (req_params req ''id''))) then []
      else [\<lparr>msg = m, err_location = Params, err_path = ''id'',
             err_value = map_option JStr (req_params req ''id'')\<rparr>])"
  by (simp add: id_rule_eq run_chain_def select_field_def item_fails_def)

lemma name_rule_eq:
  "name_rule = \<lparr>location = Body, path = ''name'',
     stack = [\<lparr>validation = Standard validator_isEmpty, negated = True, message = ''Name is required''\<rparr>],
     negateNext = False\<rparr>"
  by (simp add: name_rule_def withMessage_def notEmpty_def not'_def isEmpty_def addItem_def body_def)

lemma price_rule_eq:
  "price_rule = \<lparr>location = Body, path = ''price'',
     stack = [\<lparr>validation = Standard validator_isNumeric, negated = False, message = ''Price must be a number''\<rparr>,
              \<lparr>validation = Standard validator_isEmpty, negated = True, message = ''Price is required''\<rparr>,
              \<lparr>validation = Custom js_gt_zero, negated = False, message = ''Price must be greater than 0''\<rparr>],
     negateNext = False\<rparr>"
  by (simp add: price_rule_def withMessage_def notEmpty_def not'_def isEmpty_def isNumeric_def custom_def addItem_def body_def)

lemma availability_rule_eq:
  "availability_rule = \<lparr>location = Body, path = ''availability'',
     stack = [\<lparr>validation = Standard validator_isBoolean, negated = False, message = ''Availability must be a boolean''\<rparr>],
     negateNext = False\<rparr>"
  by (simp add: availability_rule_def withMessage_def isBoolean_def addItem_def body_def)

lemma run_name_rule:
  "run_chain name_rule req =
     (if toString (req_body req ''name'') = []
      then [\<lparr>msg = ''Name is required'', err_location = Body, err_path = ''name'',
              err_value = req_body req ''name''\<rparr>]
      else [])"
  by (simp add: name_rule_eq run_chain_def select_field_def item_fails_def validator_isEmpty_def)

lemma run_price_rule:
  "run_chain price_rule req =
     (if validator_isNumeric (toString (req_body req ''price'')) then []
      else [\<lparr>msg = ''Price must be a number'', err_location = Body, err_path = ''price'',
              err_value = req_body req ''price''\<rparr>]) @
     (if toString (req_body req ''price'') = []
      then [\<lparr>msg = ''Price is required'', err_location = Body, err_path = ''price'',
              err_value = req_body req ''price''\<rparr>]
      else []) @
     (if js_gt_zero (req_body req ''price'') then []
      else [\<lparr>msg = ''Price must be greater than 0'', err_location = Body, err_path = ''price'',
              err_value = req_body req ''price''\<rparr>])"
  by (simp add: price_rule_eq run_chain_def select_field_def item_fails_def validator_isEmpty_def Let_def)

lemma pk_of_string_isInt: "pk_of_string s = Some k \<Longrightarrow> validator_isInt s"
  by (simp add: pk_of_string_def validator_isInt_def split: if_splits)

lemma findByPk_found:
  assumes "findByPk db key = Inr (Some p)"
  shows "\<exists>s. key = Some s \<and> pk_of_string s = Some (prod_id p) \<and> in_key_range (prod_id p)
           \<and> find (\<lambda>q. prod_id q = prod_id p) (rows db) = Some p"
proof -
  from assms obtain s k where s: "key = Some s" "pk_of_string s = Some k" "in_key_range k"
      and f: "find (\<lambda>q. prod_id q = k) (rows db) = Some p"
    by (auto simp: findByPk_def split: option.splits if_splits)
  from f have "prod_id p = k" by (auto simp: find_Some_iff)
  with s f show ?thesis by simp
qed

lemma findByPk_absent:
  assumes "key = Some s" "pk_of_string s = Some k" "in_key_range k" "k \<notin> prod_id ` set (rows db)"
  shows "findByPk db key = Inr None"
  using assms by (auto simp: findByPk_def find_None_iff)

lemma found_id_passes:
  assumes "findByPk db (req_params req ''id'') = Inr (Some p)"
  shows "validationResult [withMessage m (isInt (param ''id''))] req = []"
proof -
  from findByPk_found[OF assms] obtain s where "req_params req ''id'' = Some s" "pk_of_string s = Some (prod_id p)"
    by blast
  then show ?thesis
    by (simp add: validationResult_def run_id_rule pk_of_string_isInt)
qed

lemma absent_id_passes:
  assumes "req_params req ''id'' = Some s" "pk_of_string s = Some k"
  shows "validationResult [withMessage m (isInt (param ''id''))] req = []"
  using assms by (simp add: validationResult_def run_id_rule pk_of_string_isInt)

lemma find_map_same:
  assumes "\<And>q. P (f q) = P q"
  shows "find P (map f xs) = map_option f (find P xs)"
  using assms by (induction xs) simp_all

lemma find_filter_none: "find (\<lambda>q. prod_id q = k) (filter (\<lambda>q. prod_id q \<noteq> k) xs) = None"
  by (simp add: find_None_iff)

lemma rows_save:
  "rows (fst (save p' now db)) = map (\<lambda>q. if prod_id q = prod_id p' then p'\<lparr>updatedAt := now\<rparr> else q) (rows db)"
  by (simp add: save_def Let_def)

lemma filter_map_others:
  assumes "prod_id p' = k"
  shows "filter (\<lambda>q. prod_id q \<noteq> k) (map (\<lambda>q. if prod_id q = k then p' else q) xs)
           = filter (\<lambda>q. prod_id q \<noteq> k) xs"
  using assms by (induction xs) simp_all

lemma findByPk_save:
  assumes "findByPk db key = Inr (Some p)" and "prod_id p' = prod_id p"
  shows "findByPk (fst (save p' now db)) key = Inr (Some (p'\<lparr>updatedAt := now\<rparr>))"
proof -
  from findByPk_found[OF assms(1)] obtain s where s: "key = Some s" "pk_of_string s = Some (prod_id p)"
      "in_key_range (prod_id p)"
      and f: "find (\<lambda>q. prod_id q = prod_id p) (rows db) = Some p"
    by blast
  let ?f = "\<lambda>q. if prod_id q = prod_id p' then p'\<lparr>updatedAt := now\<rparr> else q"
  have "find (\<lambda>q. prod_id q = prod_id p) (map ?f (rows db)) = map_option ?f (find (\<lambda>q. prod_id q = prod_id p) (rows db))"
    by (rule find_map_same) (simp add: assms(2))
  with f s assms(2) show ?thesis
    by (simp add: findByPk_def save_def Let_def)
qed

lemma findByPk_destroy:
  assumes "findByPk db key = Inr (Some p)"
  shows "findByPk (destroy p db) key = Inr None"
proof -
  from findByPk_found[OF assms] obtain s where "key = Some s" "pk_of_string s = Some (prod_id p)"
      "in_key_range (prod_id p)"
    by blast
  then show ?thesis
    by (simp add: findByPk_def destroy_def find_filter_none)
qed

lemma patch_found:
  assumes "findByPk db (req_params req ''id'') = Inr (Some p)"
  shows "router_patch req now db =
           (fst (save (p\<lparr>availability := \<not> availability p\<rparr>) now db),
            json (Data (toJSON (p\<lparr>availability := \<not> availability p, updatedAt := now\<rparr>))))"
  using assms
  by (simp add: router_patch_def route_pass[OF found_id_passes[OF assms]] updateAvailability_def save_def Let_def)

lemma delete_found:
  assumes "findByPk db (req_params req ''id'') = Inr (Some p)"
  shows "router_delete req now db = (destroy p db, json (DataText ''Product deleted''))"
  using assms
  by (simp add: router_delete_def route_pass[OF found_id_passes[OF assms]] deleteProduct_def)

lemma get_found:
  assumes "findByPk db (req_params req ''id'') = Inr (Some p)"
  shows "router_get req now db = (db, json (Data (toJSON p)))"
  using assms
  by (simp add: router_get_def route_pass[OF found_id_passes[OF assms]] getProductById_def)

lemma listed_object:
  "exclude [''createdAt'', ''updatedAt''] (toJSON p) =
     [(''id'', JNum (Number (prod_id p) 0)), (''name'', JStr (name p)),
      (''price'', JNum (price p)), (''availability'', JBool (availability p))]"
  by (simp add: exclude_def toJSON_def)

lemma get_all_eq:
  "router_get_all req now db =
     (db, Responded \<lparr>status = 200, payload = DataList (map (\<lambda>p.
        [(''id'', JNum (Number (prod_id p) 0)), (''name'', JStr (name p)),
         (''price'', JNum (price p)), (''availability'', JBool (availability p))]) (findAll_desc db))\<rparr>)"
  by (simp add: router_get_all_def route_def handleInputErrors_def validationResult_def
      getProducts_def json_def listed_object)

lemma findAll_desc_sorted: "sorted_wrt (\<lambda>a b. prod_id b \<le> prod_id a) (findAll_desc db)"
proof -
  have "sorted (map prod_id (sort_key prod_id (rows db)))"
    by (rule sorted_sort_key)
  then have "sorted_wrt (\<lambda>a b. prod_id a \<le> prod_id b) (sort_key prod_id (rows db))"
    by (simp add: sorted_wrt_map)
  then show ?thesis
    by (simp add: findAll_desc_def sorted_wrt_rev)
qed

section \<open>Numbers as strings\<close>

text \<open>
  The digits of a positive number \<open>n\<close> are as many as its decimal length, so the position
  of the decimal point in \<open>unsigned_to_string\<close> is the decimal exponent of the number.
\<close>

lemma digit_char_is_digit: "d < 10 \<Longrightarrow> is_digit (digit_char d)"
proof -
  assume "d < 10"
  then have "d \<in> {0, 1, 2, 3, 4, 5, 6, 7, 8, 9}" by auto
  then show ?thesis
    by (auto simp: is_digit_def digit_char_def)
qed

lemma digit_char_zero: "d < 10 \<Longrightarrow> digit_char d = CHR ''0'' \<longleftrightarrow> d = 0"
proof -
  assume "d < 10"
  then have "d \<in> {0, 1, 2, 3, 4, 5, 6, 7, 8, 9}" by auto
  then show ?thesis
    by (auto simp: digit_char_def)
qed

lemma digits_of_all_digits: "list_all is_digit (digits_of n)"
proof (induction n rule: digits_of.induct)
  case (1 n)
  show ?case
  proof (cases "n < 10")
    case True
    then show ?thesis
      by (simp add: digits_of.simps[of n] digit_char_is_digit)
  next
    case False
    with 1 show ?thesis
      by (simp add: digits_of.simps[of n] digit_char_is_digit)
  qed
qed

lemma digits_of_not_Nil: "digits_of n \<noteq> []"
  by (simp add: digits_of.simps[of n])

lemma digits_of_has_nonzero: "0 < n \<Longrightarrow> \<exists>c \<in> set (digits_of n). c \<noteq> CHR ''0''"
proof (induction n rule: digits_of.induct)
  case (1 n)
  show ?case
  proof (cases "n < 10")
    case True
    with 1(2) show ?thesis
      by (simp add: digits_of.simps[of n] digit_char_zero)
  next
    case False
    then have "0 < n div 10" by simp
    with 1(1) False have "\<exists>c \<in> set (digits_of (n div 10)). c \<noteq> CHR ''0''" by blast
    with False show ?thesis
      by (subst digits_of.simps) auto
  qed
qed

lemma digits_of_bounds:
  "0 < n \<Longrightarrow> 10 ^ (length (digits_of n) - 1) \<le> n \<and> n < 10 ^ length (digits_of n)"
proof (induction n rule: digits_of.induct)
  case (1 n)
  show ?case
  proof (cases "n < 10")
    case True
    with 1(2) show ?thesis
      by (simp add: digits_of.simps[of n])
  next
    case False
    then have pos: "0 < n div 10" by simp
    from 1(1)[OF False pos] have lo: "10 ^ (length (digits_of (n div 10)) - 1) \<le> n div 10"
      and hi: "n div 10 < 10 ^ length (digits_of (n div 10))"
      by simp_all
    have len: "length (digits_of n) = Suc (length (digits_of (n div 10)))"
      using False by (simp add: digits_of.simps[of n])
    have l0: "0 < length (digits_of (n div 10))"
      using digits_of_not_Nil[of "n div 10"] by simp
    from lo have "10 * 10 ^ (length (digits_of (n div 10)) - 1) \<le> 10 * (n div 10)"
      by simp
    moreover have "10 * (n div 10) \<le> n"
      by simp
    moreover have "(10::nat) * 10 ^ (length (digits_of (n div 10)) - 1) = 10 ^ length (digits_of (n div 10))"
      using l0 by (cases "length (digits_of (n div 10))") simp_all
    ultimately have a: "10 ^ length (digits_of (n div 10)) \<le> n"
      by linarith
    from hi have "n div 10 + 1 \<le> 10 ^ length (digits_of (n div 10))"
      by simp
    then have "10 * (n div 10 + 1) \<le> 10 * 10 ^ length (digits_of (n div 10))"
      by simp
    moreover have "n < 10 * (n div 10 + 1)"
      by presburger
    ultimately have b: "n < 10 * 10 ^ length (digits_of (n div 10))"
      by linarith
    show ?thesis
      using a b by (simp add: len)
  qed
qed

lemma strip_trailing_zeros_digits: "list_all is_digit ds \<Longrightarrow> list_all is_digit (strip_trailing_zeros ds)"
proof -
  assume a: "list_all is_digit ds"
  have "set (dropWhile (\<lambda>c. c = CHR ''0'') (rev ds)) \<subseteq> set ds"
    using set_dropWhileD by fastforce
  with a show ?thesis
    by (auto simp: strip_trailing_zeros_def list_all_iff)
qed

lemma strip_trailing_zeros_not_Nil:
  "\<exists>c \<in> set ds. c \<noteq> CHR ''0'' \<Longrightarrow> strip_trailing_zeros ds \<noteq> []"
  by (auto simp: strip_trailing_zeros_def dropWhile_eq_Nil_conv)

lemma unsigned_numeric_digits:
  assumes "ds \<noteq> []" and "list_all is_digit ds"
  shows "unsigned_numeric ds"
proof -
  have t: "takeWhile is_digit ds = ds" and d: "dropWhile is_digit ds = []"
    using assms(2) by (simp_all add: list_all_iff)
  show ?thesis
    unfolding unsigned_numeric_def Let_def t d using assms(1) by simp
qed

lemma not_digit_dot: "\<not> is_digit (CHR ''.'')"
  by (simp add: is_digit_def)

lemma unsigned_numeric_fraction:
  assumes "list_all is_digit a" and "f \<noteq> []" and "list_all is_digit f"
  shows "unsigned_numeric (a @ CHR ''.'' # f)"
proof -
  have t: "takeWhile is_digit (a @ CHR ''.'' # f) = a"
    using assms(1) by (simp add: takeWhile_append2 list_all_iff not_digit_dot)
  have d: "dropWhile is_digit (a @ CHR ''.'' # f) = CHR ''.'' # f"
    using assms(1) by (simp add: dropWhile_append2 list_all_iff not_digit_dot)
  show ?thesis
    using assms(2,3) by (simp add: unsigned_numeric_def t d)
qed

lemma strip_sign_digit: "s \<noteq> [] \<Longrightarrow> is_digit (hd s) \<Longrightarrow> strip_sign s = s"
  by (cases s) (auto simp: strip_sign_def is_digit_def)

text \<open>The plain rendering of a positive number: well-formed for isNumeric, and starts with a digit.\<close>

lemma unsigned_to_string_plain:
  assumes "0 < a" and "- 6 < int (length (digits_of a)) + e" and "int (length (digits_of a)) + e \<le> 21"
  shows "unsigned_numeric (unsigned_to_string a e) \<and> unsigned_to_string a e \<noteq> []
         \<and> is_digit (hd (unsigned_to_string a e))"
proof -
  let ?ds = "digits_of a"
  let ?s = "strip_trailing_zeros ?ds"
  let ?k = "int (length ?s)"
  let ?n = "int (length ?ds) + e"
  have sd: "list_all is_digit ?s"
    by (rule strip_trailing_zeros_digits[OF digits_of_all_digits])
  have sn: "?s \<noteq> []"
    by (rule strip_trailing_zeros_not_Nil[OF digits_of_has_nonzero[OF assms(1)]])
  have hd_s: "is_digit (hd ?s)"
    using sd sn by (cases ?s) simp_all
  have zeros: "list_all is_digit (replicate m (CHR ''0''))" for m
    by (simp add: list_all_iff is_digit_def)
  consider (int) "?k \<le> ?n" | (point) "0 < ?n" "?n < ?k" | (small) "?n \<le> 0"
    by linarith
  then show ?thesis
  proof cases
    case int
    then have r: "unsigned_to_string a e = ?s @ replicate (nat (?n - ?k)) (CHR ''0'')"
      using assms(3) by (simp add: unsigned_to_string_def Let_def)
    have "list_all is_digit (?s @ replicate (nat (?n - ?k)) (CHR ''0''))"
      using sd zeros by simp
    then show ?thesis
      using sn hd_s by (simp add: r unsigned_numeric_digits)
  next
    case point
    then have r: "unsigned_to_string a e = take (nat ?n) ?s @ CHR ''.'' # drop (nat ?n) ?s"
      using assms(3) by (simp add: unsigned_to_string_def Let_def)
    have t: "list_all is_digit (take (nat ?n) ?s)"
      using sd by (auto simp: list_all_iff dest: in_set_takeD)
    have d: "list_all is_digit (drop (nat ?n) ?s)"
      using sd by (auto simp: list_all_iff dest: in_set_dropD)
    have dn: "drop (nat ?n) ?s \<noteq> []"
      using point by simp
    have tn: "take (nat ?n) ?s \<noteq> []"
      using point sn by simp
    have "hd (take (nat ?n) ?s @ CHR ''.'' # drop (nat ?n) ?s) = hd ?s"
      using tn point by (cases ?s) (simp_all add: take_Cons')
    then show ?thesis
      using unsigned_numeric_fraction[OF t dn d] hd_s by (simp add: r)
  next
    case small
    have "length ?s \<noteq> 0"
      using sn by simp
    with small have nk: "\<not> ?k \<le> ?n"
      by linarith
    have r: "unsigned_to_string a e = CHR ''0'' # CHR ''.'' # replicate (nat (- ?n)) (CHR ''0'') @ ?s"
      unfolding unsigned_to_string_def Let_def using nk small assms(2) by simp
    have z: "list_all is_digit [CHR ''0'']"
      by (simp add: is_digit_def)
    have f: "list_all is_digit (replicate (nat (- ?n)) (CHR ''0'') @ ?s)"
      using sd zeros by simp
    have fn: "replicate (nat (- ?n)) (CHR ''0'') @ ?s \<noteq> []"
      using sn by simp
    show ?thesis
      using unsigned_numeric_fraction[OF z fn f] by (simp add: r is_digit_def)
  qed
qed

lemma plain_number_is_numeric:
  assumes "plain_notation x"
  shows "validator_isNumeric (number_to_string x)"
proof (cases "mant x = 0")
  case True
  then show ?thesis
    by (simp add: number_to_string_def validator_isNumeric_def strip_sign_def unsigned_numeric_def is_digit_def)
next
  case False
  then have pos: "0 < nat \<bar>mant x\<bar>" by simp
  from assms False have b: "- 6 < int (length (digits_of (nat \<bar>mant x\<bar>))) + expo x"
      "int (length (digits_of (nat \<bar>mant x\<bar>))) + expo x \<le> 21"
    by (simp_all add: plain_notation_def)
  note u = unsigned_to_string_plain[OF pos b]
  show ?thesis
  proof (cases "mant x < 0")
    case True
    then show ?thesis
      using u False by (simp add: number_to_string_def validator_isNumeric_def strip_sign_def)
  next
    case False
    then show ?thesis
      using u \<open>mant x \<noteq> 0\<close> by (simp add: number_to_string_def validator_isNumeric_def strip_sign_digit)
  qed
qed

lemma unsigned_to_string_not_Nil:
  assumes "0 < a"
  shows "unsigned_to_string a e \<noteq> []"
proof -
  have "strip_trailing_zeros (digits_of a) \<noteq> []"
    by (rule strip_trailing_zeros_not_Nil[OF digits_of_has_nonzero[OF assms]])
  then show ?thesis
    by (simp add: unsigned_to_string_def Let_def)
qed

lemma number_to_string_not_Nil: "number_to_string x \<noteq> []"
  using unsigned_to_string_not_Nil[of "nat \<bar>mant x\<bar>" "expo x"]
  by (simp add: number_to_string_def)

section \<open>What the columns take from a valid body\<close>






section \<open>The tests of product.test.ts in the model\<close>

text \<open>
  Each expectation of the repository's tests holds in the model, with the requests run in
  the order of the test file on a table that starts empty. They fix the reading of the
  validation chains: an empty POST body has four errors, a named product with price 0 has
  one, and an empty PUT body has five.
\<close>

lemma test_post_validation:
  "status_of (snd (router_post (request_of [] []) ''T1'' empty_table)) = Some 400
   \<and> length (errors_of (snd (router_post (request_of [] []) ''T1'' empty_table))) = 4
   \<and> map msg (errors_of (snd (router_post
        (request_of [] [(''name'', JStr ''Monitor-Testing''), (''price'', JNum (Number 0 0))]) ''T1'' empty_table)))
       = [''Price must be greater than 0'']
   \<and> map msg (errors_of (snd (router_post
        (request_of [] [(''name'', JStr ''Monitor-Testing''), (''price'', JStr ''hola'')]) ''T1'' empty_table)))
       = [''Price must be a number'', ''Price must be greater than 0'']"
  by code_simp

lemma test_post_creates:
  "router_post (request_of [] [(''name'', JStr ''Mouse-Testing''), (''price'', JNum (Number 100 0))]) ''T1'' empty_table
     = (created, Responded \<lparr>status = 201, payload = Data
         [(''id'', JNum (Number 1 0)), (''name'', JStr ''Mouse-Testing''), (''price'', JNum (Number 100 0)),
          (''availability'', JBool True), (''createdAt'', JStr ''T1''), (''updatedAt'', JStr ''T1'')]\<rparr>)"
  by code_simp

lemma test_get:
  "router_get (request_of [(''id'', ''9999'')] []) ''T2'' created
     = (created, Responded \<lparr>status = 404, payload = Error ''Product not found''\<rparr>)
   \<and> map msg (errors_of (snd (router_get (request_of [(''id'', ''not-valid-url'')] []) ''T2'' created)))
       = [''Id must be an integer'']
   \<and> status_of (snd (router_get (request_of [(''id'', ''1'')] []) ''T2'' created)) = Some 200
   \<and> status_of (snd (router_get_all (request_of [] []) ''T2'' created)) = Some 200"
  by code_simp

lemma test_put:
  "status_of (snd (router_put (request_of [(''id'', ''not-valid-url'')] testing_body) ''T2'' created)) = Some 400
   \<and> map msg (errors_of (snd (router_put (request_of [(''id'', ''not-valid-url'')] testing_body) ''T2'' created)))
       = [''not a valid id'']
   \<and> length (errors_of (snd (router_put (request_of [(''id'', ''1'')] []) ''T2'' created))) = 5
   \<and> router_put (request_of [(''id'', ''9999'')] testing_body) ''T2'' created
       = (created, Responded \<lparr>status = 404, payload = Error ''Product not found''\<rparr>)
   \<and> map msg (errors_of (snd (router_put (request_of [(''id'', ''1'')]
          [(''name'', JStr ''Monitor-Testing''), (''price'', JNum (Number (- 100) 0)),
           (''availability'', JBool True)]) ''T2'' created)))
       = [''Price must be greater than 0'']
   \<and> fst (router_put (request_of [(''id'', ''1'')]
          [(''name'', JStr ''Monitor-Testing-updated''), (''price'', JNum (Number 100 0)),
           (''availability'', JBool True)]) ''T2'' created) = updated
   \<and> status_of (snd (router_put (request_of [(''id'', ''1'')]
          [(''name'', JStr ''Monitor-Testing-updated''), (''price'', JNum (Number 100 0)),
           (''availability'', JBool True)]) ''T2'' created)) = Some 200"
  by code_simp

lemma test_patch:
  "map msg (errors_of (snd (router_patch (request_of [(''id'', ''not-valid-url'')] []) ''T3'' updated)))
       = [''not a valid id'']
   \<and> router_patch (request_of [(''id'', ''9999'')] []) ''T3'' updated
       = (updated, Responded \<lparr>status = 404, payload = Error ''Product not found''\<rparr>)
   \<and> router_patch (request_of [(''id'', ''1'')]
          [(''name'', JStr ''Monitor-Testing-updated''), (''price'', JNum (Number 100 0)),
           (''availability'', JBool True)]) ''T3'' updated
       = (toggled, Responded \<lparr>status = 200, payload = Data
           [(''id'', JNum (Number 1 0)), (''name'', JStr ''Monitor-Testing-updated''),
            (''price'', JNum (Number 100 0)), (''availability'', JBool False),
            (''createdAt'', JStr ''T1''), (''updatedAt'', JStr ''T3'')]\<rparr>)"
  by code_simp

lemma test_delete:
  "map msg (errors_of (snd (router_delete (request_of [(''id'', ''not-valid-url'')] []) ''T4'' toggled)))
       = [''not a valid id'']
   \<and> router_delete (request_of [(''id'', ''9999'')] []) ''T4'' toggled
       = (toggled, Responded \<lparr>status = 404, payload = Error ''Product not found''\<rparr>)
   \<and> router_delete (request_of [(''id'', ''1'')] []) ''T4'' toggled
       = (\<lparr>rows = [], last_id = 1\<rparr>, Responded \<lparr>status = 200, payload = DataText ''Product deleted''\<rparr>)"
  by code_simp

section \<open>The properties of the routes\<close>

subsection \<open>The name rule on create\<close>

text \<open>
  C1. On POST, a body whose name is missing or the empty string is answered 400 with the
  error "Name is required" for the field name (followed by whatever the price rules
  report), and the table is unchanged; a body whose name is a non-empty string passes
  the name rule, so that the errors of the request are those of the price rules alone.
  In general the name rule fails exactly when the string of the name is empty.
\<close>

theorem name_is_required:
  "(req_body req ''name'' = None \<or> req_body req ''name'' = Some (JStr []) \<longrightarrow>
      router_post req now db =
        (db, Responded \<lparr>status = 400, payload = Errors
           (\<lparr>msg = ''Name is required'', err_location = Body, err_path = ''name'',
              err_value = req_body req ''name''\<rparr> # run_chain price_rule req)\<rparr>))
   \<and> (\<forall>s. req_body req ''name'' = Some (JStr s) \<and> s \<noteq> [] \<longrightarrow>
         run_chain name_rule req = []
         \<and> validationResult [name_rule, price_rule] req = run_chain price_rule req)
   \<and> run_chain name_rule req =
        (if toString (req_body req ''name'') = []
         then [\<lparr>msg = ''Name is required'', err_location = Body, err_path = ''name'',
                 err_value = req_body req ''name''\<rparr>]
         else [])"
proof -
  have missing: "router_post req now db =
        (db, Responded \<lparr>status = 400, payload = Errors
           (\<lparr>msg = ''Name is required'', err_location = Body, err_path = ''name'',
              err_value = req_body req ''name''\<rparr> # run_chain price_rule req)\<rparr>)"
    if "toString (req_body req ''name'') = []"
  proof -
    have v: "validationResult [name_rule, price_rule] req =
        \<lparr>msg = ''Name is required'', err_location = Body, err_path = ''name'',
              err_value = req_body req ''name''\<rparr> # run_chain price_rule req"
      using that by (simp add: validationResult_Cons validationResult_Nil run_name_rule)
    then have "validationResult [name_rule, price_rule] req \<noteq> []"
      by simp
    from route_fail[OF this] v show ?thesis
      by (simp add: router_post_def status_json_def)
  qed
  have given: "run_chain name_rule req = []
         \<and> validationResult [name_rule, price_rule] req = run_chain price_rule req"
    if "req_body req ''name'' = Some (JStr s)" "s \<noteq> []" for s
    using that by (simp add: validationResult_Cons validationResult_Nil run_name_rule)
  show ?thesis
    using missing given run_name_rule[of req] by auto
qed

theorem name_is_required_witness:
  "req_body (request_of [] [(''price'', JNum (Number 400 0))]) ''name'' = None
   \<and> router_post (request_of [] [(''price'', JNum (Number 400 0))]) ''2024-02-01T00:00:00.000Z'' stock
       = (stock, Responded \<lparr>status = 400, payload = Errors
            [\<lparr>msg = ''Name is required'', err_location = Body, err_path = ''name'', err_value = None\<rparr>]\<rparr>)
   \<and> req_body (request_of [] [(''name'', JStr ''Mouse''), (''price'', JNum (Number 400 0))]) ''name'' = Some (JStr ''Mouse'')
   \<and> run_chain name_rule (request_of [] [(''name'', JStr ''Mouse''), (''price'', JNum (Number 400 0))]) = []"
proof -
  let ?r1 = "request_of [] [(''price'', JNum (Number 400 0))]"
  let ?r2 = "request_of [] [(''name'', JStr ''Mouse''), (''price'', JNum (Number 400 0))]"
  have h1: "req_body ?r1 ''name'' = None"
    by (simp add: request_of_def)
  have h2: "req_body ?r2 ''name'' = Some (JStr ''Mouse'')"
    by (simp add: request_of_def)
  have p: "run_chain price_rule ?r1 = []"
    by code_simp
  show ?thesis
    using h1 h2 name_is_required[of ?r1 "''2024-02-01T00:00:00.000Z''" stock] name_is_required[of ?r2]
    by (simp add: p)
qed

subsection \<open>What create stores\<close>




subsection \<open>Toggling availability twice\<close>

text \<open>
  C3. For every existing product, one PATCH flips \<open>availability\<close> once: the response and
  the stored row show the negated value. A second PATCH on the same product answers with
  the original value, and the table is then the original one but for \<open>updatedAt\<close> in the
  rows of that id.
\<close>

theorem patch_twice_restores_availability:
  assumes "findByPk db (req_params req ''id'') = Inr (Some p)"
  shows "snd (router_patch req t1 db)
           = Responded \<lparr>status = 200, payload = Data (toJSON (p\<lparr>availability := \<not> availability p, updatedAt := t1\<rparr>))\<rparr>
       \<and> findByPk (fst (router_patch req t1 db)) (req_params req ''id'')
           = Inr (Some (p\<lparr>availability := \<not> availability p, updatedAt := t1\<rparr>))
       \<and> snd (router_patch req t2 (fst (router_patch req t1 db)))
           = Responded \<lparr>status = 200, payload = Data (toJSON (p\<lparr>updatedAt := t2\<rparr>))\<rparr>
       \<and> findByPk (fst (router_patch req t2 (fst (router_patch req t1 db)))) (req_params req ''id'')
           = Inr (Some (p\<lparr>updatedAt := t2\<rparr>))
       \<and> rows (fst (router_patch req t2 (fst (router_patch req t1 db))))
           = map (\<lambda>q. if prod_id q = prod_id p then p\<lparr>updatedAt := t2\<rparr> else q) (rows db)
       \<and> last_id (fst (router_patch req t2 (fst (router_patch req t1 db)))) = last_id db"
proof -
  let ?p1 = "p\<lparr>availability := \<not> availability p, updatedAt := t1\<rparr>"
  let ?db1 = "fst (router_patch req t1 db)"
  let ?db2 = "fst (router_patch req t2 ?db1)"
  have r1: "router_patch req t1 db =
      (fst (save (p\<lparr>availability := \<not> availability p\<rparr>) t1 db), json (Data (toJSON ?p1)))"
    by (rule patch_found[OF assms])
  have f1: "findByPk ?db1 (req_params req ''id'') = Inr (Some ?p1)"
    using findByPk_save[OF assms, of "p\<lparr>availability := \<not> availability p\<rparr>" t1]
    by (simp add: r1)
  have r2: "router_patch req t2 ?db1 =
      (fst (save (?p1\<lparr>availability := \<not> availability ?p1\<rparr>) t2 ?db1),
       json (Data (toJSON (?p1\<lparr>availability := \<not> availability ?p1, updatedAt := t2\<rparr>))))"
    by (rule patch_found[OF f1])
  have f2: "findByPk ?db2 (req_params req ''id'')
      = Inr (Some (?p1\<lparr>availability := \<not> availability ?p1, updatedAt := t2\<rparr>))"
    using findByPk_save[OF f1, of "?p1\<lparr>availability := \<not> availability ?p1\<rparr>" t2]
    by (simp add: r2)
  have rows1: "rows ?db1 = map (\<lambda>q. if prod_id q = prod_id p then ?p1 else q) (rows db)"
    by (simp add: r1 rows_save)
  have rows2: "rows ?db2 = map (\<lambda>q. if prod_id q = prod_id p then p\<lparr>updatedAt := t2\<rparr> else q) (rows ?db1)"
    by (simp add: r2 rows_save)
  have rows: "rows ?db2 = map (\<lambda>q. if prod_id q = prod_id p then p\<lparr>updatedAt := t2\<rparr> else q) (rows db)"
    unfolding rows2 rows1 by (simp add: comp_def)
  have "last_id ?db2 = last_id ?db1"
    by (simp add: r2 save_def Let_def)
  moreover have "last_id ?db1 = last_id db"
    by (simp add: r1 save_def Let_def)
  ultimately have seq: "last_id ?db2 = last_id db"
    by simp
  show ?thesis
    using r1 f1 r2 f2 rows seq by (simp add: json_def)
qed

theorem patch_twice_restores_availability_witness:
  "findByPk stock (req_params (request_of [(''id'', ''1'')] []) ''id'') = Inr (Some monitor)
   \<and> availability monitor = True
   \<and> snd (router_patch (request_of [(''id'', ''1'')] []) ''2024-02-01T00:00:00.000Z'' stock)
       = Responded \<lparr>status = 200, payload = Data
           [(''id'', JNum (Number 1 0)), (''name'', JStr ''Monitor''), (''price'', JNum (Number 400 0)),
            (''availability'', JBool False), (''createdAt'', JStr ''2024-01-01T00:00:00.000Z''),
            (''updatedAt'', JStr ''2024-02-01T00:00:00.000Z'')]\<rparr>
   \<and> snd (router_patch (request_of [(''id'', ''1'')] []) ''2024-02-02T00:00:00.000Z''
          (fst (router_patch (request_of [(''id'', ''1'')] []) ''2024-02-01T00:00:00.000Z'' stock)))
       = Responded \<lparr>status = 200, payload = Data
           [(''id'', JNum (Number 1 0)), (''name'', JStr ''Monitor''), (''price'', JNum (Number 400 0)),
            (''availability'', JBool True), (''createdAt'', JStr ''2024-01-01T00:00:00.000Z''),
            (''updatedAt'', JStr ''2024-02-02T00:00:00.000Z'')]\<rparr>"
proof -
  have h: "findByPk stock (req_params (request_of [(''id'', ''1'')] []) ''id'') = Inr (Some monitor)"
    by code_simp
  show ?thesis
    using h patch_twice_restores_availability[OF h, of "''2024-02-01T00:00:00.000Z''" "''2024-02-02T00:00:00.000Z''"]
    by (simp add: json_def toJSON_def monitor_def)
qed

subsection \<open>Deleting twice\<close>

text \<open>
  C4. For every existing product, the first DELETE answers 200 with the text
  "Product deleted" and leaves the table without any row of that id; a second DELETE of
  the same id answers 404 and leaves that table as it is.
\<close>

theorem delete_then_not_found:
  assumes "findByPk db (req_params req ''id'') = Inr (Some p)"
  shows "router_delete req t1 db
           = (destroy p db, Responded \<lparr>status = 200, payload = DataText ''Product deleted''\<rparr>)
       \<and> rows (destroy p db) = filter (\<lambda>q. prod_id q \<noteq> prod_id p) (rows db)
       \<and> findByPk (destroy p db) (req_params req ''id'') = Inr None
       \<and> router_delete req t2 (destroy p db)
           = (destroy p db, Responded \<lparr>status = 404, payload = Error ''Product not found''\<rparr>)"
proof -
  have d1: "router_delete req t1 db = (destroy p db, json (DataText ''Product deleted''))"
    by (rule delete_found[OF assms])
  have gone: "findByPk (destroy p db) (req_params req ''id'') = Inr None"
    by (rule findByPk_destroy[OF assms])
  from findByPk_found[OF assms] obtain s where s: "req_params req ''id'' = Some s" "pk_of_string s = Some (prod_id p)"
    by blast
  have d2: "router_delete req t2 (destroy p db) = (destroy p db, status_json 404 (Error ''Product not found''))"
    using gone by (simp add: router_delete_def route_pass[OF absent_id_passes[OF s]] deleteProduct_def)
  show ?thesis
    using d1 gone d2 by (simp add: json_def status_json_def destroy_def)
qed

theorem delete_then_not_found_witness:
  "findByPk stock (req_params (request_of [(''id'', ''2'')] []) ''id'') = Inr (Some mouse)
   \<and> router_delete (request_of [(''id'', ''2'')] []) ''2024-02-01T00:00:00.000Z'' stock
       = (\<lparr>rows = [monitor], last_id = 2\<rparr>, Responded \<lparr>status = 200, payload = DataText ''Product deleted''\<rparr>)
   \<and> router_delete (request_of [(''id'', ''2'')] []) ''2024-02-02T00:00:00.000Z'' \<lparr>rows = [monitor], last_id = 2\<rparr>
       = (\<lparr>rows = [monitor], last_id = 2\<rparr>, Responded \<lparr>status = 404, payload = Error ''Product not found''\<rparr>)"
proof -
  have h: "findByPk stock (req_params (request_of [(''id'', ''2'')] []) ''id'') = Inr (Some mouse)"
    by code_simp
  have d: "destroy mouse stock = \<lparr>rows = [monitor], last_id = 2\<rparr>"
    by (simp add: destroy_def stock_def monitor_def mouse_def)
  show ?thesis
    using h delete_then_not_found[OF h, of "''2024-02-01T00:00:00.000Z''" "''2024-02-02T00:00:00.000Z''", unfolded d]
    by blast
qed

subsection \<open>An id that no row has\<close>

text \<open>
  C5, amended. For every integer id within the range of the key that no row of the table
  has, each of the four handlers getProductById, updateProduct, updateAvailability and
  deleteProduct answers 404 with the error "Product not found" and returns the table
  unchanged. So do the GET, PATCH and DELETE routes, and the PUT route when the body
  passes its rules.
\<close>

theorem absent_id_is_not_found:
  assumes "req_params req ''id'' = Some s" and "pk_of_string s = Some k"
      and "in_key_range k" and "k \<notin> prod_id ` set (rows db)"
  shows "getProductById req now db = (db, Responded \<lparr>status = 404, payload = Error ''Product not found''\<rparr>)
       \<and> updateProduct req now db = (db, Responded \<lparr>status = 404, payload = Error ''Product not found''\<rparr>)
       \<and> updateAvailability req now db = (db, Responded \<lparr>status = 404, payload = Error ''Product not found''\<rparr>)
       \<and> deleteProduct req now db = (db, Responded \<lparr>status = 404, payload = Error ''Product not found''\<rparr>)
       \<and> router_get req now db = (db, Responded \<lparr>status = 404, payload = Error ''Product not found''\<rparr>)
       \<and> router_patch req now db = (db, Responded \<lparr>status = 404, payload = Error ''Product not found''\<rparr>)
       \<and> router_delete req now db = (db, Responded \<lparr>status = 404, payload = Error ''Product not found''\<rparr>)
       \<and> (validationResult [name_rule, price_rule, availability_rule] req = [] \<longrightarrow>
            router_put req now db = (db, Responded \<lparr>status = 404, payload = Error ''Product not found''\<rparr>))"
proof -
  have nf: "findByPk db (req_params req ''id'') = Inr None"
    by (rule findByPk_absent[OF assms])
  have ok: "\<And>m. validationResult [withMessage m (isInt (param ''id''))] req = []"
    by (rule absent_id_passes[OF assms(1,2)])
  have h1: "getProductById req now db = (db, Responded \<lparr>status = 404, payload = Error ''Product not found''\<rparr>)"
    using nf by (simp add: getProductById_def status_json_def)
  have h2: "updateProduct req now db = (db, Responded \<lparr>status = 404, payload = Error ''Product not found''\<rparr>)"
    using nf by (simp add: updateProduct_def status_json_def)
  have h3: "updateAvailability req now db = (db, Responded \<lparr>status = 404, payload = Error ''Product not found''\<rparr>)"
    using nf by (simp add: updateAvailability_def status_json_def)
  have h4: "deleteProduct req now db = (db, Responded \<lparr>status = 404, payload = Error ''Product not found''\<rparr>)"
    using nf by (simp add: deleteProduct_def status_json_def)
  have put: "validationResult [name_rule, price_rule, availability_rule] req = [] \<Longrightarrow>
      validationResult [withMessage ''not a valid id'' (isInt (param ''id'')), name_rule, price_rule, availability_rule] req = []"
    using ok[of "''not a valid id''"] by (simp add: validationResult_def)
  show ?thesis
    using h1 h2 h3 h4 put
    by (simp add: router_get_def router_patch_def router_delete_def router_put_def route_pass ok)
qed

theorem absent_id_is_not_found_witness:
  "req_params (request_of [(''id'', ''9999'')] [(''name'', JStr ''Monitor''), (''price'', JNum (Number 400 0)), (''availability'', JBool True)]) ''id'' = Some ''9999''
   \<and> pk_of_string ''9999'' = Some 9999
   \<and> in_key_range 9999
   \<and> 9999 \<notin> prod_id ` set (rows stock)
   \<and> validationResult [name_rule, price_rule, availability_rule]
        (request_of [(''id'', ''9999'')] [(''name'', JStr ''Monitor''), (''price'', JNum (Number 400 0)), (''availability'', JBool True)]) = []
   \<and> router_put (request_of [(''id'', ''9999'')] [(''name'', JStr ''Monitor''), (''price'', JNum (Number 400 0)), (''availability'', JBool True)]) ''2024-02-01T00:00:00.000Z'' stock
       = (stock, Responded \<lparr>status = 404, payload = Error ''Product not found''\<rparr>)
   \<and> router_get (request_of [(''id'', ''9999'')] [(''name'', JStr ''Monitor''), (''price'', JNum (Number 400 0)), (''availability'', JBool True)]) ''2024-02-01T00:00:00.000Z'' stock
       = (stock, Responded \<lparr>status = 404, payload = Error ''Product not found''\<rparr>)
   \<and> router_patch (request_of [(''id'', ''9999'')] [(''name'', JStr ''Monitor''), (''price'', JNum (Number 400 0)), (''availability'', JBool True)]) ''2024-02-01T00:00:00.000Z'' stock
       = (stock, Responded \<lparr>status = 404, payload = Error ''Product not found''\<rparr>)
   \<and> router_delete (request_of [(''id'', ''9999'')] [(''name'', JStr ''Monitor''), (''price'', JNum (Number 400 0)), (''availability'', JBool True)]) ''2024-02-01T00:00:00.000Z'' stock
       = (stock, Responded \<lparr>status = 404, payload = Error ''Product not found''\<rparr>)"
proof -
  let ?r = "request_of [(''id'', ''9999'')] [(''name'', JStr ''Monitor''), (''price'', JNum (Number 400 0)), (''availability'', JBool True)]"
  have h1: "req_params ?r ''id'' = Some ''9999''"
    by (simp add: request_of_def)
  have h2: "pk_of_string ''9999'' = Some 9999"
    by code_simp
  have h3: "in_key_range 9999"
    by (simp add: in_key_range_def)
  have h4: "9999 \<notin> prod_id ` set (rows stock)"
    by (simp add: stock_def monitor_def mouse_def)
  have v: "validationResult [name_rule, price_rule, availability_rule] ?r = []"
    by code_simp
  show ?thesis
    using h1 h2 h3 h4 v absent_id_is_not_found[OF h1 h2 h3 h4, of "''2024-02-01T00:00:00.000Z''"]
    by simp
qed

text \<open>
  The claim as first stated fails at the id 2147483648: it passes the integer rule of
  every route and no row has it, but it is outside the range of the key, so the lookup
  fails. getProductById catches that and answers 500; the other three handlers do not
  answer.
\<close>

theorem key_out_of_range_counterexample:
  "validator_isInt ''2147483648''
   \<and> pk_of_string ''2147483648'' = Some 2147483648
   \<and> 2147483648 \<notin> prod_id ` set (rows stock)
   \<and> router_get (request_of [(''id'', ''2147483648'')] []) ''2024-02-01T00:00:00.000Z'' stock
       = (stock, Responded \<lparr>status = 500, payload = Error ''Server error''\<rparr>)
   \<and> router_put (request_of [(''id'', ''2147483648'')]
          [(''name'', JStr ''Monitor''), (''price'', JNum (Number 400 0)), (''availability'', JBool True)])
        ''2024-02-01T00:00:00.000Z'' stock = (stock, NoResponse)
   \<and> router_patch (request_of [(''id'', ''2147483648'')] []) ''2024-02-01T00:00:00.000Z'' stock
       = (stock, NoResponse)
   \<and> router_delete (request_of [(''id'', ''2147483648'')] []) ''2024-02-01T00:00:00.000Z'' stock
       = (stock, NoResponse)"
  by code_simp

subsection \<open>A price that is not positive\<close>

text \<open>
  C6, amended. For every create request with a non-empty name whose price is a number,
  at most zero, that JavaScript prints without an exponent (zero, or of magnitude at
  least 1e-6 and below 1e21): the response is 400 with exactly one error, "Price must be
  greater than 0", the table is unchanged, and the numeric and the non-empty rule pass.
\<close>

theorem nonpositive_price_single_error:
  assumes "toString (req_body req ''name'') \<noteq> []"
      and "req_body req ''price'' = Some (JNum x)" and "mant x \<le> 0" and "plain_notation x"
  shows "router_post req now db =
           (db, Responded \<lparr>status = 400, payload = Errors
              [\<lparr>msg = ''Price must be greater than 0'', err_location = Body, err_path = ''price'',
                 err_value = Some (JNum x)\<rparr>]\<rparr>)
       \<and> validator_isNumeric (toString (req_body req ''price''))
       \<and> \<not> validator_isEmpty (toString (req_body req ''price''))"
proof -
  have num: "validator_isNumeric (toString (req_body req ''price''))"
    using assms(2) plain_number_is_numeric[OF assms(4)] by simp
  have ne: "toString (req_body req ''price'') \<noteq> []"
    using assms(2) number_to_string_not_Nil[of x] by simp
  have gt: "\<not> js_gt_zero (req_body req ''price'')"
    using assms(2,3) by simp
  have v: "validationResult [name_rule, price_rule] req =
      [\<lparr>msg = ''Price must be greater than 0'', err_location = Body, err_path = ''price'',
                 err_value = Some (JNum x)\<rparr>]"
    using assms(1,2) num ne gt
    by (simp add: validationResult_Cons validationResult_Nil run_name_rule run_price_rule)
  then have "validationResult [name_rule, price_rule] req \<noteq> []"
    by simp
  from route_fail[OF this] have "router_post req now db =
           (db, Responded \<lparr>status = 400, payload = Errors
              [\<lparr>msg = ''Price must be greater than 0'', err_location = Body, err_path = ''price'',
                 err_value = Some (JNum x)\<rparr>]\<rparr>)"
    by (simp add: router_post_def status_json_def v)
  then show ?thesis
    using num ne by (simp add: validator_isEmpty_def)
qed

theorem nonpositive_price_single_error_witness:
  "toString (req_body (request_of [] [(''name'', JStr ''Monitor-Testing''), (''price'', JNum (Number 0 0))]) ''name'') \<noteq> []
   \<and> req_body (request_of [] [(''name'', JStr ''Monitor-Testing''), (''price'', JNum (Number 0 0))]) ''price''
       = Some (JNum (Number 0 0))
   \<and> mant (Number 0 0) \<le> 0 \<and> plain_notation (Number 0 0)
   \<and> router_post (request_of [] [(''name'', JStr ''Monitor-Testing''), (''price'', JNum (Number 0 0))])
        ''2024-02-01T00:00:00.000Z'' stock =
           (stock, Responded \<lparr>status = 400, payload = Errors
              [\<lparr>msg = ''Price must be greater than 0'', err_location = Body, err_path = ''price'',
                 err_value = Some (JNum (Number 0 0))\<rparr>]\<rparr>)"
proof -
  let ?r = "request_of [] [(''name'', JStr ''Monitor-Testing''), (''price'', JNum (Number 0 0))]"
  have h1: "toString (req_body ?r ''name'') \<noteq> []"
    by (simp add: request_of_def)
  have h2: "req_body ?r ''price'' = Some (JNum (Number 0 0))"
    by (simp add: request_of_def)
  have h3: "mant (Number 0 0) \<le> 0"
    by simp
  have h4: "plain_notation (Number 0 0)"
    by (simp add: plain_notation_def)
  show ?thesis
    using h1 h2 h3 h4 nonpositive_price_single_error[OF h1 h2 h3 h4, of "''2024-02-01T00:00:00.000Z''" stock]
    by simp
qed

text \<open>
  The claim as first stated fails at the price \<open>-1e21\<close>: its string is \<open>-1e+21\<close>, which
  the numeric rule refuses, so the response has two errors.
\<close>

theorem exponent_price_counterexample:
  "toString (req_body (request_of [] [(''name'', JStr ''Monitor-Testing''), (''price'', JNum (Number (- 1) 21))]) ''name'') \<noteq> []
   \<and> mant (Number (- 1) 21) \<le> 0
   \<and> toString (Some (JNum (Number (- 1) 21))) = ''-1e+21''
   \<and> \<not> validator_isNumeric ''-1e+21''
   \<and> status_of (snd (router_post (request_of [] [(''name'', JStr ''Monitor-Testing''), (''price'', JNum (Number (- 1) 21))])
        ''2024-02-01T00:00:00.000Z'' stock)) = Some 400
   \<and> map msg (errors_of (snd (router_post (request_of [] [(''name'', JStr ''Monitor-Testing''), (''price'', JNum (Number (- 1) 21))])
        ''2024-02-01T00:00:00.000Z'' stock)))
       = [''Price must be a number'', ''Price must be greater than 0'']"
  by code_simp

subsection \<open>A path id that is no integer\<close>

text \<open>
  C7, amended. When the path id is no integer, GET answers 400 with the single error
  "Id must be an integer", PATCH and DELETE answer 400 with the single error
  "not a valid id", and PUT answers 400 with the error "not a valid id" first, followed
  by the errors of the body's rules (none when the body is valid). The table is unchanged.
\<close>

theorem invalid_id_is_rejected:
  assumes "req_params req ''id'' = Some s" and "\<not> validator_isInt s"
  shows "router_get req now db =
           (db, Responded \<lparr>status = 400, payload = Errors
              [\<lparr>msg = ''Id must be an integer'', err_location = Params, err_path = ''id'',
                 err_value = Some (JStr s)\<rparr>]\<rparr>)
       \<and> router_patch req now db =
           (db, Responded \<lparr>status = 400, payload = Errors
              [\<lparr>msg = ''not a valid id'', err_location = Params, err_path = ''id'',
                 err_value = Some (JStr s)\<rparr>]\<rparr>)
       \<and> router_delete req now db =
           (db, Responded \<lparr>status = 400, payload = Errors
              [\<lparr>msg = ''not a valid id'', err_location = Params, err_path = ''id'',
                 err_value = Some (JStr s)\<rparr>]\<rparr>)
       \<and> router_put req now db =
           (db, Responded \<lparr>status = 400, payload = Errors
              (\<lparr>msg = ''not a valid id'', err_location = Params, err_path = ''id'',
                 err_value = Some (JStr s)\<rparr>
               # validationResult [name_rule, price_rule, availability_rule] req)\<rparr>)"
proof -
  have one: "validationResult [withMessage m (isInt (param ''id''))] req =
      [\<lparr>msg = m, err_location = Params, err_path = ''id'', err_value = Some (JStr s)\<rparr>]" for m
    using assms by (simp add: validationResult_Cons validationResult_Nil run_id_rule)
  have more: "validationResult [withMessage ''not a valid id'' (isInt (param ''id'')), name_rule, price_rule, availability_rule] req =
      \<lparr>msg = ''not a valid id'', err_location = Params, err_path = ''id'', err_value = Some (JStr s)\<rparr>
        # validationResult [name_rule, price_rule, availability_rule] req"
    using assms by (simp add: validationResult_Cons run_id_rule)
  have g: "router_get req now db = (db, status_json 400 (Errors (validationResult [withMessage ''Id must be an integer'' (isInt (param ''id''))] req)))"
    unfolding router_get_def by (rule route_fail) (simp add: one)
  have p: "router_patch req now db = (db, status_json 400 (Errors (validationResult [withMessage ''not a valid id'' (isInt (param ''id''))] req)))"
    unfolding router_patch_def by (rule route_fail) (simp add: one)
  have d: "router_delete req now db = (db, status_json 400 (Errors (validationResult [withMessage ''not a valid id'' (isInt (param ''id''))] req)))"
    unfolding router_delete_def by (rule route_fail) (simp add: one)
  have u: "router_put req now db = (db, status_json 400 (Errors (validationResult [withMessage ''not a valid id'' (isInt (param ''id'')), name_rule, price_rule, availability_rule] req)))"
    unfolding router_put_def by (rule route_fail) (simp add: more)
  show ?thesis
    using g p d u by (simp add: one more status_json_def)
qed

theorem invalid_id_is_rejected_witness:
  "req_params (request_of [(''id'', ''12abc'')] [(''name'', JStr ''Monitor''), (''price'', JNum (Number 400 0)), (''availability'', JBool True)]) ''id'' = Some ''12abc''
   \<and> \<not> validator_isInt ''12abc''
   \<and> router_put (request_of [(''id'', ''12abc'')] [(''name'', JStr ''Monitor''), (''price'', JNum (Number 400 0)), (''availability'', JBool True)]) ''2024-02-01T00:00:00.000Z'' stock
       = (stock, Responded \<lparr>status = 400, payload = Errors
            [\<lparr>msg = ''not a valid id'', err_location = Params, err_path = ''id'', err_value = Some (JStr ''12abc'')\<rparr>]\<rparr>)
   \<and> router_get (request_of [(''id'', ''12abc'')] [(''name'', JStr ''Monitor''), (''price'', JNum (Number 400 0)), (''availability'', JBool True)]) ''2024-02-01T00:00:00.000Z'' stock
       = (stock, Responded \<lparr>status = 400, payload = Errors
            [\<lparr>msg = ''Id must be an integer'', err_location = Params, err_path = ''id'', err_value = Some (JStr ''12abc'')\<rparr>]\<rparr>)"
proof -
  let ?r = "request_of [(''id'', ''12abc'')] [(''name'', JStr ''Monitor''), (''price'', JNum (Number 400 0)), (''availability'', JBool True)]"
  have h1: "req_params ?r ''id'' = Some ''12abc''"
    by (simp add: request_of_def)
  have h2: "\<not> validator_isInt ''12abc''"
    by code_simp
  have v: "validationResult [name_rule, price_rule, availability_rule] ?r = []"
    by code_simp
  show ?thesis
    using h1 h2 invalid_id_is_rejected[OF h1 h2, of "''2024-02-01T00:00:00.000Z''" stock]
    by (simp add: v)
qed

text \<open>
  The claim as first stated fails on PUT: with a path id that is no integer and an empty
  body, the response has six errors.
\<close>

theorem single_error_counterexample:
  "\<not> validator_isInt ''not-valid-url''
   \<and> status_of (snd (router_put (request_of [(''id'', ''not-valid-url'')] []) ''2024-02-01T00:00:00.000Z'' stock)) = Some 400
   \<and> map msg (errors_of (snd (router_put (request_of [(''id'', ''not-valid-url'')] []) ''2024-02-01T00:00:00.000Z'' stock)))
     = [''not a valid id'', ''Name is required'', ''Price must be a number'', ''Price is required'',
        ''Price must be greater than 0'', ''Availability must be a boolean'']"
  by code_simp

subsection \<open>The list\<close>

text \<open>
  C8. The list route answers 200 with one object for every stored row, in descending
  order of id, each object holding id, name, price and availability and neither of the
  two timestamps; the table is unchanged.
\<close>

theorem list_is_complete_descending_without_timestamps:
  "router_get_all req now db =
     (db, Responded \<lparr>status = 200, payload = DataList (map (\<lambda>p.
        [(''id'', JNum (Number (prod_id p) 0)), (''name'', JStr (name p)),
         (''price'', JNum (price p)), (''availability'', JBool (availability p))]) (findAll_desc db))\<rparr>)
   \<and> mset (findAll_desc db) = mset (rows db)
   \<and> sorted_wrt (\<lambda>a b. prod_id b \<le> prod_id a) (findAll_desc db)"
proof -
  have "mset (findAll_desc db) = mset (rows db)"
    by (simp add: findAll_desc_def)
  then show ?thesis
    using get_all_eq findAll_desc_sorted by simp
qed

subsection \<open>What the toggle leaves alone\<close>

text \<open>
  C9. For every existing product, PATCH leaves the product's id, name and price (and
  \<open>createdAt\<close>) as they were, negates \<open>availability\<close> and stamps \<open>updatedAt\<close>; the rows of
  every other id, the order of the rows and the sequence are unchanged.
\<close>

theorem patch_changes_availability_only:
  assumes "findByPk db (req_params req ''id'') = Inr (Some p)"
  shows "findByPk (fst (router_patch req now db)) (req_params req ''id'')
           = Inr (Some \<lparr>prod_id = prod_id p, name = name p, price = price p,
                         availability = (\<not> availability p), createdAt = createdAt p, updatedAt = now\<rparr>)
       \<and> filter (\<lambda>q. prod_id q \<noteq> prod_id p) (rows (fst (router_patch req now db)))
           = filter (\<lambda>q. prod_id q \<noteq> prod_id p) (rows db)
       \<and> map prod_id (rows (fst (router_patch req now db))) = map prod_id (rows db)
       \<and> last_id (fst (router_patch req now db)) = last_id db"
proof -
  let ?p' = "p\<lparr>availability := \<not> availability p\<rparr>"
  have r: "fst (router_patch req now db) = fst (save ?p' now db)"
    by (simp add: patch_found[OF assms])
  have f: "findByPk (fst (save ?p' now db)) (req_params req ''id'') = Inr (Some (?p'\<lparr>updatedAt := now\<rparr>))"
    by (rule findByPk_save[OF assms]) simp
  have e: "?p'\<lparr>updatedAt := now\<rparr> = \<lparr>prod_id = prod_id p, name = name p, price = price p,
                         availability = (\<not> availability p), createdAt = createdAt p, updatedAt = now\<rparr>"
    by (cases p) simp
  have others: "filter (\<lambda>q. prod_id q \<noteq> prod_id p) (rows (fst (save ?p' now db)))
      = filter (\<lambda>q. prod_id q \<noteq> prod_id p) (rows db)"
    using filter_map_others[of "?p'\<lparr>updatedAt := now\<rparr>" "prod_id p" "rows db"]
    by (simp add: rows_save)
  have ids: "map prod_id (rows (fst (save ?p' now db))) = map prod_id (rows db)"
    by (simp add: rows_save)
  have l: "last_id (fst (save ?p' now db)) = last_id db"
    by (simp add: save_def Let_def)
  show ?thesis
    using f others ids l by (simp only: r e simp_thms)
qed

theorem patch_changes_availability_only_witness:
  "findByPk stock (req_params (request_of [(''id'', ''2'')] []) ''id'') = Inr (Some mouse)
   \<and> findByPk (fst (router_patch (request_of [(''id'', ''2'')] []) ''2024-02-01T00:00:00.000Z'' stock))
        (req_params (request_of [(''id'', ''2'')] []) ''id'')
       = Inr (Some \<lparr>prod_id = 2, name = ''Mouse'', price = Number 1999 (- 2), availability = True,
            createdAt = ''2024-01-02T00:00:00.000Z'', updatedAt = ''2024-02-01T00:00:00.000Z''\<rparr>)
   \<and> filter (\<lambda>q. prod_id q \<noteq> 2) (rows (fst (router_patch (request_of [(''id'', ''2'')] []) ''2024-02-01T00:00:00.000Z'' stock)))
       = [monitor]"
proof -
  have h: "findByPk stock (req_params (request_of [(''id'', ''2'')] []) ''id'') = Inr (Some mouse)"
    by code_simp
  show ?thesis
    using h patch_changes_availability_only[OF h, of "''2024-02-01T00:00:00.000Z''"]
    by (simp add: mouse_def stock_def monitor_def)
qed

subsection \<open>Timestamps in the response of get by id\<close>

text \<open>
  C10. For every existing product, GET by id answers 200 with the whole row, \<open>createdAt\<close>
  and \<open>updatedAt\<close> included, while no object of the list route has either key.
\<close>

theorem get_by_id_keeps_timestamps:
  assumes "findByPk db (req_params req ''id'') = Inr (Some p)"
  shows "router_get req now db =
           (db, Responded \<lparr>status = 200, payload = Data
              [(''id'', JNum (Number (prod_id p) 0)), (''name'', JStr (name p)),
               (''price'', JNum (price p)), (''availability'', JBool (availability p)),
               (''createdAt'', JStr (createdAt p)), (''updatedAt'', JStr (updatedAt p))]\<rparr>)
       \<and> (\<exists>objs. router_get_all req now db = (db, Responded \<lparr>status = 200, payload = DataList objs\<rparr>)
             \<and> (\<forall>obj \<in> set objs. map_of obj ''createdAt'' = None \<and> map_of obj ''updatedAt'' = None))"
proof -
  have "router_get req now db = (db, json (Data (toJSON p)))"
    by (rule get_found[OF assms])
  then have one: "router_get req now db =
           (db, Responded \<lparr>status = 200, payload = Data
              [(''id'', JNum (Number (prod_id p) 0)), (''name'', JStr (name p)),
               (''price'', JNum (price p)), (''availability'', JBool (availability p)),
               (''createdAt'', JStr (createdAt p)), (''updatedAt'', JStr (updatedAt p))]\<rparr>)"
    by (simp add: json_def toJSON_def)
  let ?objs = "map (\<lambda>p.
        [(''id'', JNum (Number (prod_id p) 0)), (''name'', JStr (name p)),
         (''price'', JNum (price p)), (''availability'', JBool (availability p))]) (findAll_desc db)"
  have "\<forall>obj \<in> set ?objs. map_of obj ''createdAt'' = None \<and> map_of obj ''updatedAt'' = None"
    by simp
  with get_all_eq[of req now db] have
    "\<exists>objs. router_get_all req now db = (db, Responded \<lparr>status = 200, payload = DataList objs\<rparr>)
             \<and> (\<forall>obj \<in> set objs. map_of obj ''createdAt'' = None \<and> map_of obj ''updatedAt'' = None)"
    by blast
  with one show ?thesis by simp
qed

theorem get_by_id_keeps_timestamps_witness:
  "findByPk stock (req_params (request_of [(''id'', ''1'')] []) ''id'') = Inr (Some monitor)
   \<and> router_get (request_of [(''id'', ''1'')] []) ''2024-02-01T00:00:00.000Z'' stock
       = (stock, Responded \<lparr>status = 200, payload = Data
            [(''id'', JNum (Number 1 0)), (''name'', JStr ''Monitor''), (''price'', JNum (Number 400 0)),
             (''availability'', JBool True), (''createdAt'', JStr ''2024-01-01T00:00:00.000Z''),
             (''updatedAt'', JStr ''2024-01-01T00:00:00.000Z'')]\<rparr>)"
proof -
  have h: "findByPk stock (req_params (request_of [(''id'', ''1'')] []) ''id'') = Inr (Some monitor)"
    by code_simp
  show ?thesis
    using h get_by_id_keeps_timestamps[OF h, of "''2024-02-01T00:00:00.000Z''"]
    by (simp add: monitor_def)
qed

end
